theory Spec2Isabelle
  imports Complex_Main
begin

section \<open>JavaScript values\<close>

text \<open>
  The renderers of \<^verbatim>\<open>src/js/renderers/vimeo.js\<close> and
  \<^verbatim>\<open>src/js/renderers/soundcloud.js\<close> receive untyped JavaScript values.
  \<open>jsval\<close> holds the values that reach the code modelled here:
  \<^item> \<open>Num\<close> is a finite number, taken as a real (rounding to a double is not modelled;
    none of the results below depends on arithmetic over such numbers), \<open>NaN\<close> is the
    not-a-number value;
  \<^item> \<open>Str\<close> is a string of 8-bit code units;
  \<^item> \<open>SrcList\<close> is an array of media files \<^verbatim>\<open>{src: ..., type: ...}\<close>, each file
    given by the value of its \<^verbatim>\<open>src\<close> field;
  \<^item> \<open>TimeRanges\<close> is the object returned by the \<^verbatim>\<open>buffered\<close> getter;
  \<^item> \<open>Promise\<close> is the promise returned by a call on the Vimeo player, named by its
    position in the list of issued promises.
\<close>

datatype jsval =
    Undefined
  | Null
  | Bool bool
  | Num real
  | NaN
  | Str string
  | SrcList "jsval list"
  | TimeRanges
  | Promise nat

datatype js_error = TypeError | ReferenceError

text \<open>A call either returns a value or throws.\<close>

datatype js_result = Returned jsval | Threw js_error

text \<open>ToBoolean, as \<^verbatim>\<open>if (value)\<close> applies it.\<close>

fun truthy :: "jsval \<Rightarrow> bool" where
  "truthy Undefined = False"
| "truthy Null = False"
| "truthy (Bool b) = b"
| "truthy (Num x) = (x \<noteq> 0)"
| "truthy NaN = False"
| "truthy (Str s) = (s \<noteq> [])"
| "truthy (SrcList fs) = True"
| "truthy TimeRanges = True"
| "truthy (Promise n) = True"

section \<open>String functions of the language\<close>

text \<open>\<^verbatim>\<open>s.split(c)\<close> for a one-character separator: never the empty array.\<close>

fun split_at :: "char \<Rightarrow> string \<Rightarrow> string list" where
  "split_at c [] = [[]]"
| "split_at c (x # xs) =
     (if x = c then [] # split_at c xs
      else (case split_at c xs of
              [] \<Rightarrow> [[x]]
            | p # ps \<Rightarrow> (x # p) # ps))"

text \<open>
  \<^verbatim>\<open>s.lastIndexOf(c)\<close>: the greatest index holding \<open>c\<close>, or \<open>-1\<close>. The helper
  walks the string from index \<open>i\<close> and keeps the last hit.
\<close>

fun lastIndexOf_from :: "char \<Rightarrow> string \<Rightarrow> int \<Rightarrow> int \<Rightarrow> int" where
  "lastIndexOf_from c [] i found = found"
| "lastIndexOf_from c (x # xs) i found =
     lastIndexOf_from c xs (i + 1) (if x = c then i else found)"

definition lastIndexOf :: "string \<Rightarrow> char \<Rightarrow> int" where
  "lastIndexOf s c = lastIndexOf_from c s 0 (- 1)"

text \<open>\<^verbatim>\<open>s.substring(start)\<close>: a negative start counts as 0, a start past the end as the length.\<close>

definition substring :: "string \<Rightarrow> int \<Rightarrow> string" where
  "substring s start = drop (nat start) s"

text \<open>
  \<^verbatim>\<open>parseInt(s)\<close> with no radix: leading white space is skipped, a sign is read, a
  prefix \<^verbatim>\<open>0x\<close> or \<^verbatim>\<open>0X\<close> selects radix 16 (radix 10 otherwise), the longest run
  of digits of that radix is the value, and no digit at all gives \<open>NaN\<close>.
\<close>

definition isWhiteSpace :: "char \<Rightarrow> bool" where
  "isWhiteSpace c =
     (let n = (of_char c :: nat)
      in n = 9 \<or> n = 10 \<or> n = 11 \<or> n = 12 \<or> n = 13 \<or> n = 32 \<or> n = 160)"

definition digitValue :: "char \<Rightarrow> nat option" where
  "digitValue c =
     (let n = (of_char c :: nat)
      in if 48 \<le> n \<and> n \<le> 57 then Some (n - 48)
         else if 97 \<le> n \<and> n \<le> 122 then Some (n - 87)
         else if 65 \<le> n \<and> n \<le> 90 then Some (n - 55)
         else None)"

text \<open>
  The digits are read left to right; \<open>acc\<close> is \<open>None\<close> until the first digit has been
  read, and reading stops at the first character that is not a digit of the radix.
\<close>

fun readDigits :: "nat \<Rightarrow> string \<Rightarrow> nat option \<Rightarrow> nat option" where
  "readDigits r [] acc = acc"
| "readDigits r (c # cs) acc =
     (case digitValue c of
        None \<Rightarrow> acc
      | Some d \<Rightarrow>
          (if d < r
           then readDigits r cs (Some ((case acc of None \<Rightarrow> 0 | Some a \<Rightarrow> a) * r + d))
           else acc))"

fun stripSign :: "string \<Rightarrow> int \<times> string" where
  "stripSign [] = (1, [])"
| "stripSign (c # cs) =
     (if c = CHR ''-'' then (- 1, cs)
      else if c = CHR ''+'' then (1, cs)
      else (1, c # cs))"

fun stripPrefix :: "string \<Rightarrow> nat \<times> string" where
  "stripPrefix (a # b # cs) =
     (if a = CHR ''0'' \<and> (b = CHR ''x'' \<or> b = CHR ''X'') then (16, cs)
      else (10, a # b # cs))"
| "stripPrefix cs = (10, cs)"

definition parseInt :: "string \<Rightarrow> jsval" where
  "parseInt s =
     (case stripSign (dropWhile isWhiteSpace s) of
        (sign, s1) \<Rightarrow>
          (case stripPrefix s1 of
             (r, s2) \<Rightarrow>
               (case readDigits r s2 None of
                  None \<Rightarrow> NaN
                | Some n \<Rightarrow> Num (of_int (sign * int n)))))"

section \<open>The Vimeo loader object: identifier extraction\<close>

text \<open>
  \<^verbatim>\<open>vimeoApi.getVimeoId(url)\<close>. \<^verbatim>\<open>undefined\<close> and \<^verbatim>\<open>null\<close> give \<^verbatim>\<open>null\<close>;
  a string is cut at its first \<^verbatim>\<open>?\<close>, and what follows its last \<^verbatim>\<open>/\<close> is parsed
  as an integer. Any other value has no method \<^verbatim>\<open>split\<close>: the call throws.
\<close>

definition getVimeoId :: "jsval \<Rightarrow> js_result" where
  "getVimeoId url =
     (case url of
        Undefined \<Rightarrow> Returned Null
      | Null \<Rightarrow> Returned Null
      | Str s \<Rightarrow>
          (case split_at CHR ''?'' s of
             [] \<Rightarrow> Threw TypeError
           | part0 # _ \<Rightarrow>
               Returned (parseInt (substring part0 (lastIndexOf part0 CHR ''/'' + 1))))
      | _ \<Rightarrow> Threw TypeError)"

section \<open>Renderer registration: canPlayType\<close>

text \<open>
  \<^verbatim>\<open>array.indexOf(x)\<close> compares with strict equality and returns the first index,
  or \<open>-1\<close>. Strict equality of two values of \<open>jsval\<close> is equality, but for \<open>NaN\<close>,
  which equals nothing.
\<close>

definition strictEq :: "jsval \<Rightarrow> jsval \<Rightarrow> bool" where
  "strictEq a b = (a \<noteq> NaN \<and> a = b)"

fun indexOf_from :: "jsval list \<Rightarrow> jsval \<Rightarrow> int \<Rightarrow> int" where
  "indexOf_from [] x i = - 1"
| "indexOf_from (y # ys) x i = (if strictEq y x then i else indexOf_from ys x (i + 1))"

definition indexOf :: "jsval list \<Rightarrow> jsval \<Rightarrow> int" where
  "indexOf xs x = indexOf_from xs x 0"

definition vimeo_canPlayType :: "jsval \<Rightarrow> bool" where
  "vimeo_canPlayType type =
     (let mediaTypes = [Str ''video/vimeo'', Str ''video/x-vimeo'']
      in indexOf mediaTypes type > - 1)"

definition soundcloud_canPlayType :: "jsval \<Rightarrow> bool" where
  "soundcloud_canPlayType type =
     (let mediaTypes = [Str ''video/soundcloud'', Str ''video/x-soundcloud'']
      in indexOf mediaTypes type > - 1)"

section \<open>The loaders of the external scripts\<close>

text \<open>
  Both files keep one loader object (\<^verbatim>\<open>vimeoApi\<close>, \<^verbatim>\<open>SoundCloudApi\<close>) whose
  properties are read and written through \<^verbatim>\<open>this\<close>. A JavaScript object is a bag
  of properties: a property that is absent reads as \<^verbatim>\<open>undefined\<close>. The properties
  that matter here are flags and the queue of surface requests.
\<close>

record settings =
  iframe :: string
  ident :: string

text \<open>
  A request \<^verbatim>\<open>{iframe: ..., id: ...}\<close>: the frame element and the adapter's id
  (field \<open>ident\<close>; \<open>id\<close> is a constant of HOL).
\<close>

datatype propval = Flag bool | Queue "settings list"

type_synonym jsobj = "string \<Rightarrow> propval option"

text \<open>ToBoolean of a property that was read; an array is truthy.\<close>

definition truthy_prop :: "propval option \<Rightarrow> bool" where
  "truthy_prop p = (case p of None \<Rightarrow> False | Some (Flag b) \<Rightarrow> b | Some (Queue q) \<Rightarrow> True)"

text \<open>
  A script element that \<^verbatim>\<open>loadIframeApi\<close> created: its source, the variable
  \<^verbatim>\<open>done\<close> of the closure, and whether its load handler is still attached.
\<close>

record script =
  src :: string
  done_flag :: bool
  handler_attached :: bool

text \<open>
  The state a loader works on:
  \<^item> \<open>api\<close> is the loader object itself;
  \<^item> \<open>lexical_this\<close> is the value of \<^verbatim>\<open>this\<close> in the body of the module, \<open>None\<close> for
    \<^verbatim>\<open>undefined\<close>;
  \<^item> \<open>page_scripts\<close> counts the script elements the page had before;
  \<^item> \<open>injected\<close> lists the script elements inserted by the loader;
  \<^item> \<open>created\<close> lists the requests for which \<^verbatim>\<open>createIframe\<close> built the player and
    called the adapter's ready function \<^verbatim>\<open>win['__ready__' + settings.id]\<close>.
  The identifiers \<^verbatim>\<open>win\<close> and \<^verbatim>\<open>doc\<close>, declared nowhere in the two files, are
  taken to denote the window and the document.
\<close>

record loader_state =
  api :: jsobj
  lexical_this :: "jsobj option"
  page_scripts :: nat
  injected :: "script list"
  created :: "settings list"

text \<open>
  Both files are ECMAScript modules (they start with \<^verbatim>\<open>import\<close> declarations), and
  \<^verbatim>\<open>this\<close> in the body of a module is \<^verbatim>\<open>undefined\<close>. \<^verbatim>\<open>enqueueIframe\<close> and
  \<^verbatim>\<open>createIframe\<close> are written \<^verbatim>\<open>function (settings) {...}\<close>: called as
  \<^verbatim>\<open>vimeoApi.enqueueIframe(...)\<close>, their \<^verbatim>\<open>this\<close> is the loader object.
  \<^verbatim>\<open>loadIframeApi\<close>, \<^verbatim>\<open>iFrameReady\<close>, \<^verbatim>\<open>apiReady\<close> and the load handler of
  the script are arrow functions \<^verbatim>\<open>() => {...}\<close>: an arrow function has no
  \<^verbatim>\<open>this\<close> of its own, so theirs is the module's, whatever object they are called on.
\<close>

definition module_this :: "jsobj option" where
  "module_this = None"

definition vimeoApi :: jsobj where
  "vimeoApi =
     [''isIframeStarted'' \<mapsto> Flag False,
      ''isIframeLoaded'' \<mapsto> Flag False,
      ''iframeQueue'' \<mapsto> Queue []]"

definition SoundCloudApi :: jsobj where
  "SoundCloudApi =
     [''isSDKStarted'' \<mapsto> Flag False,
      ''isSDKLoaded'' \<mapsto> Flag False,
      ''iframeQueue'' \<mapsto> Queue []]"

definition vimeo_loader :: "nat \<Rightarrow> loader_state" where
  "vimeo_loader n =
     \<lparr>api = vimeoApi, lexical_this = module_this, page_scripts = n, injected = [], created = []\<rparr>"

definition soundcloud_loader :: "nat \<Rightarrow> loader_state" where
  "soundcloud_loader n =
     \<lparr>api = SoundCloudApi, lexical_this = module_this, page_scripts = n, injected = [],
      created = []\<rparr>"

text \<open>
  \<^verbatim>\<open>createIframe(settings)\<close> builds the player on the frame and hands it to the ready
  function of the adapter. It does not use \<^verbatim>\<open>this\<close>.
\<close>

definition createIframe :: "settings \<Rightarrow> loader_state \<Rightarrow> js_result \<times> loader_state" where
  "createIframe s L = (Returned Undefined, L\<lparr>created := created L @ [s]\<rparr>)"

text \<open>
  The loop of \<^verbatim>\<open>iFrameReady\<close> and \<^verbatim>\<open>apiReady\<close>, on \<^verbatim>\<open>this\<close> = \<open>t\<close>: while the
  queue has an element, pop the last one and call \<^verbatim>\<open>this.createIframe\<close> on it. The
  argument \<open>q\<close> is the queue reversed, so that popping is taking the head. A property
  bag holds flags and queues only: an object that is not the loader has no method
  \<^verbatim>\<open>createIframe\<close>, and the call throws after the element was popped.
\<close>

definition drain_queue :: "jsobj \<Rightarrow> settings list \<Rightarrow> js_result \<times> jsobj" where
  "drain_queue t q =
     (case q of
        [] \<Rightarrow> (Returned Undefined, t)
      | s # rest \<Rightarrow> (Threw TypeError, t(''iframeQueue'' \<mapsto> Queue (rev rest))))"

text \<open>
  \<^verbatim>\<open>iFrameReady\<close> (Vimeo) and \<^verbatim>\<open>apiReady\<close> (SoundCloud) have the same body. The
  first statement, \<^verbatim>\<open>this.isLoaded = true\<close>, throws when \<^verbatim>\<open>this\<close> is
  \<^verbatim>\<open>undefined\<close>. The second flag is \<^verbatim>\<open>isIframeLoaded\<close> or \<^verbatim>\<open>isSDKLoaded\<close>.
\<close>

definition ready_body :: "string \<Rightarrow> loader_state \<Rightarrow> js_result \<times> loader_state" where
  "ready_body loadedName L =
     (case lexical_this L of
        None \<Rightarrow> (Threw TypeError, L)
      | Some t \<Rightarrow>
          (let t1 = t(''isLoaded'' \<mapsto> Flag True, loadedName \<mapsto> Flag True)
           in case t1 ''iframeQueue'' of
                None \<Rightarrow> (Threw TypeError, L\<lparr>lexical_this := Some t1\<rparr>)
              | Some (Flag b) \<Rightarrow> (Returned Undefined, L\<lparr>lexical_this := Some t1\<rparr>)
              | Some (Queue q) \<Rightarrow>
                  (case drain_queue t1 (rev q) of
                     (r, t2) \<Rightarrow> (r, L\<lparr>lexical_this := Some t2\<rparr>))))"

definition iFrameReady :: "loader_state \<Rightarrow> js_result \<times> loader_state" where
  "iFrameReady L = ready_body ''isIframeLoaded'' L"

definition apiReady :: "loader_state \<Rightarrow> js_result \<times> loader_state" where
  "apiReady L = ready_body ''isSDKLoaded'' L"

text \<open>\<^verbatim>\<open>win.onVimeoPlayerAPIReady\<close> calls \<^verbatim>\<open>vimeoApi.iFrameReady()\<close>.\<close>

definition onVimeoPlayerAPIReady :: "loader_state \<Rightarrow> js_result \<times> loader_state" where
  "onVimeoPlayerAPIReady L = iFrameReady L"

text \<open>
  \<^verbatim>\<open>loadIframeApi\<close>: unless \<^verbatim>\<open>this\<close> has a truthy started flag, create the script
  element, insert it and set the flag. Reading the flag throws when \<^verbatim>\<open>this\<close> is
  \<^verbatim>\<open>undefined\<close>. The Vimeo loader inserts before the first script element of the
  page (\<^verbatim>\<open>firstScriptTag.parentNode\<close> throws when the page has none); the SoundCloud
  loader appends to the head or the document element.
\<close>

definition vimeo_loadIframeApi :: "loader_state \<Rightarrow> js_result \<times> loader_state" where
  "vimeo_loadIframeApi L =
     (case lexical_this L of
        None \<Rightarrow> (Threw TypeError, L)
      | Some t \<Rightarrow>
          (if \<not> truthy_prop (t ''isIframeStarted'') then
             (if page_scripts L + length (injected L) = 0 then (Threw TypeError, L)
              else (Returned Undefined,
                    L\<lparr>injected :=
                        \<lparr>src = ''https://player.vimeo.com/api/player.js'', done_flag = False,
                         handler_attached = True\<rparr> # injected L,
                      lexical_this := Some (t(''isIframeStarted'' \<mapsto> Flag True))\<rparr>))
           else (Returned Undefined, L)))"

definition soundcloud_loadIframeApi :: "loader_state \<Rightarrow> js_result \<times> loader_state" where
  "soundcloud_loadIframeApi L =
     (case lexical_this L of
        None \<Rightarrow> (Threw TypeError, L)
      | Some t \<Rightarrow>
          (if \<not> truthy_prop (t ''isSDKStarted'') then
             (Returned Undefined,
              L\<lparr>injected :=
                  injected L @
                  [\<lparr>src = ''https://w.soundcloud.com/player/api.js'', done_flag = False,
                    handler_attached = True\<rparr>],
                lexical_this := Some (t(''isSDKStarted'' \<mapsto> Flag True))\<rparr>)
           else (Returned Undefined, L)))"

text \<open>
  \<^verbatim>\<open>enqueueIframe(settings)\<close>, called on the loader object:
  \<^verbatim>\<open>if (this.isLoaded) this.createIframe(settings);
  else { this.loadIframeApi(); this.iframeQueue.push(settings); }\<close>
  An exception of \<^verbatim>\<open>loadIframeApi\<close> leaves the function before the push.
\<close>

definition push_request :: "settings \<Rightarrow> loader_state \<Rightarrow> js_result \<times> loader_state" where
  "push_request s L =
     (case api L ''iframeQueue'' of
        Some (Queue q) \<Rightarrow>
          (Returned Undefined, L\<lparr>api := (api L)(''iframeQueue'' \<mapsto> Queue (q @ [s]))\<rparr>)
      | _ \<Rightarrow> (Threw TypeError, L))"

definition vimeo_enqueueIframe :: "settings \<Rightarrow> loader_state \<Rightarrow> js_result \<times> loader_state" where
  "vimeo_enqueueIframe s L =
     (if truthy_prop (api L ''isLoaded'') then createIframe s L
      else (case vimeo_loadIframeApi L of
              (Threw e, L1) \<Rightarrow> (Threw e, L1)
            | (Returned v, L1) \<Rightarrow> push_request s L1))"

definition soundcloud_enqueueIframe :: "settings \<Rightarrow> loader_state \<Rightarrow> js_result \<times> loader_state" where
  "soundcloud_enqueueIframe s L =
     (if truthy_prop (api L ''isLoaded'') then createIframe s L
      else (case soundcloud_loadIframeApi L of
              (Threw e, L1) \<Rightarrow> (Threw e, L1)
            | (Returned v, L1) \<Rightarrow> push_request s L1))"

text \<open>
  The load handler of the \<open>k\<close>-th inserted script, an arrow function as well:
  \<^verbatim>\<open>if (!done && (!this.readyState || ...)) { done = true; vimeoApi.iFrameReady(); ... }\<close>
  When \<^verbatim>\<open>done\<close> is still false, \<^verbatim>\<open>this.readyState\<close> is read, which throws for
  \<^verbatim>\<open>this\<close> undefined. An exception of the ready function leaves the handler attached.
\<close>

definition script_onload ::
  "(loader_state \<Rightarrow> js_result \<times> loader_state) \<Rightarrow> nat \<Rightarrow> loader_state \<Rightarrow>
     js_result \<times> loader_state" where
  "script_onload ready k L =
     (if k < length (injected L) \<and> handler_attached (injected L ! k) then
        (if done_flag (injected L ! k) then (Returned Undefined, L)
         else (case lexical_this L of
                 None \<Rightarrow> (Threw TypeError, L)
               | Some t \<Rightarrow>
                   (if \<not> truthy_prop (t ''readyState'') then
                      (case ready (L\<lparr>injected := (injected L)[k := (injected L ! k)\<lparr>done_flag := True\<rparr>]\<rparr>) of
                         (Threw e, L1) \<Rightarrow> (Threw e, L1)
                       | (Returned v, L1) \<Rightarrow>
                           (Returned Undefined,
                            L1\<lparr>injected := (injected L1)[k := (injected L1 ! k)\<lparr>handler_attached := False\<rparr>]\<rparr>))
                    else (Returned Undefined, L))))
      else (Returned Undefined, L))"

text \<open>What can happen to a loader, and a run of such events; an exception ends one event only.\<close>

datatype loader_event = Enqueue settings | ScriptLoaded nat | ApiReadyCallback

fun vimeo_loader_step :: "loader_event \<Rightarrow> loader_state \<Rightarrow> loader_state" where
  "vimeo_loader_step (Enqueue s) L = snd (vimeo_enqueueIframe s L)"
| "vimeo_loader_step (ScriptLoaded k) L = snd (script_onload iFrameReady k L)"
| "vimeo_loader_step ApiReadyCallback L = snd (onVimeoPlayerAPIReady L)"

fun soundcloud_loader_step :: "loader_event \<Rightarrow> loader_state \<Rightarrow> loader_state" where
  "soundcloud_loader_step (Enqueue s) L = snd (soundcloud_enqueueIframe s L)"
| "soundcloud_loader_step (ScriptLoaded k) L = snd (script_onload apiReady k L)"
| "soundcloud_loader_step ApiReadyCallback L = L"

section \<open>What the two adapters share\<close>

text \<open>
  A pending command, \<^verbatim>\<open>{type: 'set', propName: ..., value: ...}\<close> or
  \<^verbatim>\<open>{type: 'call', methodName: ...}\<close>.
\<close>

datatype cmd = SetCmd string jsval | CallCmd string

text \<open>
  The calls an adapter makes on the remote widget. \<open>SeekTo1000 v\<close> stands for
  \<^verbatim>\<open>seekTo(v * 1000)\<close>: the product, a numeric coercion of an arbitrary value, is kept
  as its operand. The events of \<^verbatim>\<open>SC.Widget.Events\<close> are named as the source names them.
\<close>

datatype sc_event = PLAY_PROGRESS | PAUSE | PLAY | FINISHED | READY | LOAD_PROGRESS

datatype widget_call =
    LoadVideo jsval
  | SetCurrentTime jsval
  | SetVolume jsval
  | SetLoop jsval
  | Play
  | Pause
  | GetVideoUrl
  | GetDuration
  | GetCurrentTime
  | On string
  | Load jsval
  | SeekTo1000 jsval
  | GetPosition
  | Bind sc_event
  | Destroy

text \<open>The error object a rejected Vimeo promise carries.\<close>

record remote_error =
  name :: string
  message :: string

datatype outcome = Resolved jsval | Rejected remote_error

text \<open>
  Modelled from the spec: \<^verbatim>\<open>createEvent(type, target)\<close> of \<^verbatim>\<open>utils/dom\<close> is not in
  the sources. An event is its type, its target (the adapter object, named by its id) and
  the message that \<^verbatim>\<open>errorHandler\<close> attaches.
\<close>

record event =
  ev_type :: string
  ev_target :: string
  ev_message :: "string option"

definition createEvent :: "string \<Rightarrow> string \<Rightarrow> event" where
  "createEvent t target = \<lparr>ev_type = t, ev_target = target, ev_message = None\<rparr>"

text \<open>
  The variables that both \<^verbatim>\<open>create\<close> functions close over, and their surroundings:
  \<^item> \<open>adapter_id\<close> is \<^verbatim>\<open>vimeo.id\<close> or \<^verbatim>\<open>sc.id\<close>, \<open>mediaElement\<close> names the element
    given to \<^verbatim>\<open>create\<close>;
  \<^item> \<open>apiStack\<close>, \<open>paused\<close>, \<open>volume\<close>, \<open>currentTime\<close>, \<open>duration\<close>,
    \<open>bufferedTime\<close> and \<open>ended\<close> are the variables of these names; the numbers that
    only the widget supplies are reals;
  \<^item> \<open>calls\<close> lists the calls made on the remote widget so far;
  \<^item> \<open>timers\<close> lists the callbacks given to \<^verbatim>\<open>setTimeout\<close>: the delay, the type of the
    event the callback dispatches on the media element, and whether it has run;
  \<^item> \<open>dispatched\<close> lists the events passed to \<^verbatim>\<open>dispatchEvent\<close>, each with the element
    it was dispatched on;
  \<^item> \<open>display\<close> is \<^verbatim>\<open>style.display\<close> of the frame, \<open>console\<close> what was logged;
  \<^item> \<open>invoked\<close> is a history variable, read by nothing: every entry into a synthesized
    setter or method appends the command it stands for.
\<close>

record adapter_state =
  adapter_id :: string
  mediaElement :: string
  apiStack :: "cmd list"
  paused :: bool
  volume :: jsval
  currentTime :: jsval
  duration :: real
  bufferedTime :: real
  ended :: bool
  calls :: "widget_call list"
  timers :: "(nat \<times> string \<times> bool) list"
  dispatched :: "(string \<times> event) list"
  display :: string
  console :: "string list list"
  invoked :: "cmd list"

definition dispatchEvent :: "string \<Rightarrow> event \<Rightarrow> 'a adapter_state_scheme \<Rightarrow> 'a adapter_state_scheme" where
  "dispatchEvent el ev st = st\<lparr>dispatched := dispatched st @ [(el, ev)]\<rparr>"

text \<open>
  \<^verbatim>\<open>mediaElement.dispatchEvent(createEvent(type, adapter))\<close> inside \<^verbatim>\<open>create\<close>, where
  \<^verbatim>\<open>mediaElement\<close> is the parameter of \<^verbatim>\<open>create\<close>.
\<close>

definition emit :: "string \<Rightarrow> 'a adapter_state_scheme \<Rightarrow> 'a adapter_state_scheme" where
  "emit t st = dispatchEvent (mediaElement st) (createEvent t (adapter_id st)) st"

text \<open>\<^verbatim>\<open>setTimeout(() => { dispatch an event of type t }, 50)\<close>.\<close>

definition setTimeout50 :: "string \<Rightarrow> 'a adapter_state_scheme \<Rightarrow> 'a adapter_state_scheme" where
  "setTimeout50 t st = st\<lparr>timers := timers st @ [(50, t, False)]\<rparr>"

text \<open>The \<open>n\<close>-th timer runs, once: \<open>None\<close> when there is no such timer left to run.\<close>

definition timer_fires :: "nat \<Rightarrow> 'a adapter_state_scheme \<Rightarrow> 'a adapter_state_scheme option" where
  "timer_fires n st =
     (if n < length (timers st) then
        (case timers st ! n of
           (d, t, fired) \<Rightarrow>
             (if fired then None
              else Some (emit t (st\<lparr>timers := (timers st)[n := (d, t, True)]\<rparr>))))
      else None)"

text \<open>
  \<^verbatim>\<open>typeof value === 'string' ? value : value[0].src\<close> in both \<^verbatim>\<open>src\<close> setters: a
  value that is neither a string nor an array with a first file has no
  \<^verbatim>\<open>value[0].src\<close>, and reading it throws.
\<close>

fun srcOf :: "jsval \<Rightarrow> js_result" where
  "srcOf (Str s) = Returned (Str s)"
| "srcOf (SrcList (f # fs)) = Returned f"
| "srcOf v = Threw TypeError"

text \<open>
  The tables \<^verbatim>\<open>mejs.html5media.properties\<close> and \<^verbatim>\<open>mejs.html5media.methods\<close> are not
  in the sources. The accessors below are those that \<^verbatim>\<open>assignGettersSetters\<close> and
  \<^verbatim>\<open>assignMethods\<close> synthesize for a name, whichever name it is; a call by name
  (\<^verbatim>\<open>vimeo['set' + capName]\<close>, \<^verbatim>\<open>vimeo[methodName]\<close>) is taken to reach the accessor
  synthesized for that name.
\<close>

section \<open>The Vimeo adapter\<close>

text \<open>
  What the adapter attached to a promise of the player: the \<^verbatim>\<open>then\<close> and
  \<^verbatim>\<open>catch\<close> callbacks of the setter, getter or event handler that made the call.
  \<open>CatchOnly\<close> is a lone \<^verbatim>\<open>['catch'](errorHandler)\<close>; \<open>Unhandled\<close> is a promise the
  adapter attached nothing to.
\<close>

datatype vimeo_cont =
    After_loadVideo
  | After_setCurrentTime jsval
  | After_setVolume jsval
  | After_mute
  | After_unmute
  | After_getVideoUrl
  | After_getDuration string
  | After_getCurrentTime
  | CatchOnly
  | Unhandled

text \<open>
  The further variables of the Vimeo \<^verbatim>\<open>create\<close>, and what the adapter reads from
  outside:
  \<^item> \<open>vimeoPlayer\<close> is \<open>None\<close> for \<^verbatim>\<open>null\<close>;
  \<^item> \<open>promises\<close> lists the promises the player returned, each with what was attached and
    whether it is settled;
  \<^item> \<open>subscribed\<close> lists the player events a handler was registered for with
    \<^verbatim>\<open>on\<close>, \<open>listening\<close> the mouse events of the frame that are forwarded;
  \<^item> \<open>autoplay\<close> is the truth value of \<^verbatim>\<open>mediaElement.getAttribute('autoplay')\<close>;
  \<^item> \<open>global_mediaElement\<close> is what the identifier \<^verbatim>\<open>mediaElement\<close> denotes in
    \<^verbatim>\<open>vimeoApi.errorHandler\<close>. That function is defined in the body of the module,
    outside \<^verbatim>\<open>create\<close>, so the identifier is not the parameter of \<^verbatim>\<open>create\<close>: it is
    looked up in the global scope, and is \<open>None\<close> when nothing is bound there;
  \<^item> \<open>global_event\<close> tells whether the global scope has a variable \<^verbatim>\<open>event\<close>, which the
    handlers of \<^verbatim>\<open>play\<close> and \<^verbatim>\<open>pause\<close> assign without declaring it.
\<close>

record vimeo_state = adapter_state +
  vimeoApiReady :: bool
  vimeoPlayer :: "nat option"
  oldVolume :: jsval
  url :: jsval
  promises :: "(vimeo_cont \<times> bool) list"
  subscribed :: "string list"
  listening :: "string list"
  width :: jsval
  height :: jsval
  autoplay :: bool
  global_mediaElement :: "string option"
  global_event :: bool

text \<open>
  The state when \<^verbatim>\<open>create(mediaElement, options, mediaFiles)\<close> has initialised its
  variables; \<^verbatim>\<open>vimeo.id\<close> is \<^verbatim>\<open>mediaElement.id + '_' + options.prefix\<close>.
\<close>

definition vimeo_create ::
  "string \<Rightarrow> string \<Rightarrow> jsval \<Rightarrow> jsval \<Rightarrow> bool \<Rightarrow> string option \<Rightarrow> bool \<Rightarrow> vimeo_state" where
  "vimeo_create meId prefix w h auto gme gev =
     \<lparr>adapter_id = meId @ ''_'' @ prefix, mediaElement = meId, apiStack = [], paused = True,
      volume = Num 1, currentTime = Num 0, duration = 0, bufferedTime = 0, ended = False,
      calls = [], timers = [], dispatched = [], display = [], console = [], invoked = [],
      vimeoApiReady = False, vimeoPlayer = None, oldVolume = Num 1, url = Str [],
      promises = [], subscribed = [], listening = [], width = w, height = h, autoplay = auto,
      global_mediaElement = gme, global_event = gev\<rparr>"

text \<open>A call on the player that returns a promise, with what the caller attaches to it.\<close>

definition request :: "widget_call \<Rightarrow> vimeo_cont \<Rightarrow> vimeo_state \<Rightarrow> vimeo_state" where
  "request c k st = st\<lparr>calls := calls st @ [c], promises := promises st @ [(k, False)]\<rparr>"

text \<open>
  \<^verbatim>\<open>vimeoApi.errorHandler(error, target)\<close>: the event is created with the adapter as
  its target, its message is \<^verbatim>\<open>error.name + ': ' + error.message\<close>, and it is
  dispatched on what \<^verbatim>\<open>mediaElement\<close> denotes in the global scope; with nothing bound
  there, evaluating the identifier throws.
\<close>

definition error_event :: "remote_error \<Rightarrow> string \<Rightarrow> event" where
  "error_event error target =
     (createEvent ''error'' target)\<lparr>ev_message := Some (name error @ '': '' @ message error)\<rparr>"

definition errorHandler :: "remote_error \<Rightarrow> string \<Rightarrow> vimeo_state \<Rightarrow> js_result \<times> vimeo_state" where
  "errorHandler error target st =
     (let event = error_event error target
      in case global_mediaElement st of
           None \<Rightarrow> (Threw ReferenceError, st)
         | Some el \<Rightarrow> (Returned Undefined, dispatchEvent el event st))"

text \<open>The getter synthesized for \<open>propName\<close>.\<close>

definition vimeo_get :: "string \<Rightarrow> vimeo_state \<Rightarrow> js_result \<times> vimeo_state" where
  "vimeo_get propName st =
     (if vimeoPlayer st \<noteq> None then
        (if propName = ''currentTime'' then (Returned (currentTime st), st)
         else if propName = ''duration'' then (Returned (Num (duration st)), st)
         else if propName = ''volume'' then (Returned (volume st), st)
         else if propName = ''muted'' then (Returned (Bool (strictEq (volume st) (Num 0))), st)
         else if propName = ''paused'' then (Returned (Bool (paused st)), st)
         else if propName = ''ended'' then (Returned (Bool (ended st)), st)
         else if propName = ''src'' then (Returned (url st), request GetVideoUrl After_getVideoUrl st)
         else if propName = ''buffered'' then (Returned TimeRanges, st)
         else (Returned Null, st))
      else (Returned Null, st))"

text \<open>
  The object that the \<^verbatim>\<open>buffered\<close> getter returns reads the variables when its
  \<^verbatim>\<open>end\<close> is called, not when the getter is.
\<close>

definition buffered_end :: "'a adapter_state_scheme \<Rightarrow> real" where
  "buffered_end st = bufferedTime st * duration st"

text \<open>The setter synthesized for \<open>propName\<close>.\<close>

definition vimeo_set :: "string \<Rightarrow> jsval \<Rightarrow> vimeo_state \<Rightarrow> js_result \<times> vimeo_state" where
  "vimeo_set propName v st0 =
     (let st = st0\<lparr>invoked := invoked st0 @ [SetCmd propName v]\<rparr>
      in if vimeoPlayer st \<noteq> None then
           (if propName = ''src'' then
              (case srcOf v of
                 Threw e \<Rightarrow> (Threw e, st)
               | Returned u \<Rightarrow>
                   (case getVimeoId u of
                      Threw e \<Rightarrow> (Threw e, st)
                    | Returned videoId \<Rightarrow>
                        (Returned Undefined, request (LoadVideo videoId) After_loadVideo st)))
            else if propName = ''currentTime'' then
              (Returned Undefined, request (SetCurrentTime v) (After_setCurrentTime v) st)
            else if propName = ''volume'' then
              (Returned Undefined, request (SetVolume v) (After_setVolume v) st)
            else if propName = ''loop'' then
              (Returned Undefined, request (SetLoop v) CatchOnly st)
            else if propName = ''muted'' then
              (if truthy v
               then (Returned Undefined, request (SetVolume (Num 0)) After_mute st)
               else (Returned Undefined, request (SetVolume (oldVolume st)) After_unmute st))
            else
              (Returned Undefined,
               st\<lparr>console := console st @
                   [[''vimeo '' @ adapter_id st, propName, ''UNSUPPORTED property'']]\<rparr>))
         else (Returned Undefined, st\<lparr>apiStack := apiStack st @ [SetCmd propName v]\<rparr>))"

text \<open>The method synthesized for \<open>methodName\<close>.\<close>

definition vimeo_method :: "string \<Rightarrow> vimeo_state \<Rightarrow> js_result \<times> vimeo_state" where
  "vimeo_method methodName st0 =
     (let st = st0\<lparr>invoked := invoked st0 @ [CallCmd methodName]\<rparr>
      in if vimeoPlayer st \<noteq> None then
           (if methodName = ''play'' then
              (Returned (Promise (length (promises st))), request Play Unhandled st)
            else if methodName = ''pause'' then
              (Returned (Promise (length (promises st))), request Pause Unhandled st)
            else if methodName = ''load'' then (Returned Null, st)
            else (Returned Undefined, st))
         else (Returned Undefined, st\<lparr>apiStack := apiStack st @ [CallCmd methodName]\<rparr>))"

text \<open>
  What the attached callbacks do when the promise settles. A rejection reaches
  \<^verbatim>\<open>errorHandler\<close> where a \<^verbatim>\<open>catch\<close> was attached; an exception of the handler
  stays inside the promise.
\<close>

fun vimeo_react :: "vimeo_cont \<Rightarrow> outcome \<Rightarrow> vimeo_state \<Rightarrow> vimeo_state" where
  "vimeo_react After_loadVideo (Resolved r) st =
     (if autoplay st then request Play Unhandled st else st)"
| "vimeo_react (After_setCurrentTime v) (Resolved r) st =
     setTimeout50 ''timeupdate'' (st\<lparr>currentTime := v\<rparr>)"
| "vimeo_react (After_setVolume v) (Resolved r) st =
     setTimeout50 ''volumechange'' (st\<lparr>volume := v, oldVolume := v\<rparr>)"
| "vimeo_react After_mute (Resolved r) st =
     setTimeout50 ''volumechange'' (st\<lparr>volume := Num 0\<rparr>)"
| "vimeo_react After_unmute (Resolved r) st =
     setTimeout50 ''volumechange'' (st\<lparr>volume := oldVolume st\<rparr>)"
| "vimeo_react After_getVideoUrl (Resolved r) st = st\<lparr>url := r\<rparr>"
| "vimeo_react After_getVideoUrl (Rejected e) st = st"
| "vimeo_react (After_getDuration t) (Resolved r) st =
     (case r of
        Num loadProgress \<Rightarrow>
          emit t (if loadProgress > 0
                  then st\<lparr>duration := loadProgress, bufferedTime := loadProgress * loadProgress\<rparr>
                  else st\<lparr>duration := loadProgress\<rparr>)
      | _ \<Rightarrow> st)"
| "vimeo_react After_getCurrentTime (Resolved r) st = st\<lparr>currentTime := r\<rparr>"
| "vimeo_react After_getCurrentTime (Rejected e) st = st"
| "vimeo_react CatchOnly (Resolved r) st = st"
| "vimeo_react Unhandled out st = st"
| "vimeo_react k (Rejected e) st = snd (errorHandler e (adapter_id st) st)"

text \<open>
  The player settles its \<open>n\<close>-th promise: \<open>None\<close> when there is no such promise left to
  settle, or when \<^verbatim>\<open>getDuration\<close> would resolve with something that is not a number.
\<close>

definition vimeo_settle :: "nat \<Rightarrow> outcome \<Rightarrow> vimeo_state \<Rightarrow> vimeo_state option" where
  "vimeo_settle n out st =
     (if n < length (promises st) then
        (case promises st ! n of
           (k, settled) \<Rightarrow>
             (if settled then None
              else (case (k, out) of
                      (After_getDuration t, Resolved (Num x)) \<Rightarrow>
                        Some (vimeo_react k out (st\<lparr>promises := (promises st)[n := (k, True)]\<rparr>))
                    | (After_getDuration t, Resolved r) \<Rightarrow> None
                    | _ \<Rightarrow>
                        Some (vimeo_react k out (st\<lparr>promises := (promises st)[n := (k, True)]\<rparr>)))))
      else None)"

text \<open>
  The ready function \<^verbatim>\<open>win['__ready__' + vimeo.id]\<close>. Its loop
  \<^verbatim>\<open>for (i = 0, il = apiStack.length; i < il; i++)\<close> reads the length once;
  \<open>vimeo_replay i n\<close> is the loop at index \<open>i\<close> with \<open>n\<close> rounds to go. An exception
  of a replayed setter leaves the loop and the ready function.
\<close>

fun vimeo_issue :: "cmd \<Rightarrow> vimeo_state \<Rightarrow> js_result \<times> vimeo_state" where
  "vimeo_issue (SetCmd propName v) st = vimeo_set propName v st"
| "vimeo_issue (CallCmd methodName) st = vimeo_method methodName st"

fun vimeo_replay :: "nat \<Rightarrow> nat \<Rightarrow> vimeo_state \<Rightarrow> js_result \<times> vimeo_state" where
  "vimeo_replay i 0 st = (Returned Undefined, st)"
| "vimeo_replay i (Suc n) st =
     (if i < length (apiStack st) then
        (case vimeo_issue (apiStack st ! i) st of
           (Threw e, st1) \<Rightarrow> (Threw e, st1)
         | (Returned r, st1) \<Rightarrow> vimeo_replay (Suc i) n st1)
      else (Threw TypeError, st))"

definition vimeo_events :: "string list" where
  "vimeo_events = [''loaded'', ''progress'', ''timeupdate'', ''play'', ''pause'', ''ended'']"

definition initial_events :: "string list" where
  "initial_events = [''rendererready'', ''loadeddata'', ''loadedmetadata'', ''canplay'']"

definition vimeo_ready :: "nat \<Rightarrow> vimeo_state \<Rightarrow> js_result \<times> vimeo_state" where
  "vimeo_ready p st =
     (let st1 = st\<lparr>vimeoApiReady := True, vimeoPlayer := Some p\<rparr>
      in case vimeo_replay 0 (length (apiStack st1)) st1 of
           (Threw e, st2) \<Rightarrow> (Threw e, st2)
         | (Returned r, st2) \<Rightarrow>
             (Returned Undefined,
              fold emit initial_events
                (st2\<lparr>listening := listening st2 @ [''mouseover'', ''mouseout''],
                     calls := calls st2 @ map On vimeo_events,
                     subscribed := subscribed st2 @ vimeo_events\<rparr>)))"

text \<open>
  The handlers given to \<^verbatim>\<open>vimeoPlayer.on\<close>. \<open>gp\<close> is what
  \<^verbatim>\<open>vimeo.mediaElement.getPaused()\<close> returns, a function of the framework. The
  handlers of \<^verbatim>\<open>play\<close> and \<^verbatim>\<open>pause\<close> assign to \<^verbatim>\<open>event\<close>, which no enclosing
  scope declares: in module code the assignment throws unless the global scope has that
  variable.
\<close>

definition vimeo_handler :: "string \<Rightarrow> bool \<Rightarrow> vimeo_state \<Rightarrow> vimeo_state" where
  "vimeo_handler e gp st =
     (if e = ''loaded'' then request GetDuration (After_getDuration ''loadedmetadata'') st
      else if e = ''progress'' then
        request GetDuration (After_getDuration ''progress'') (st\<lparr>paused := gp\<rparr>)
      else if e = ''timeupdate'' then
        emit ''timeupdate''
          (request GetCurrentTime After_getCurrentTime (st\<lparr>paused := gp, ended := False\<rparr>))
      else if e = ''play'' then
        (let st1 = request Play CatchOnly (st\<lparr>paused := False, ended := False\<rparr>)
         in if global_event st1 then emit ''play'' st1 else st1)
      else if e = ''pause'' then
        (let st1 = request Pause CatchOnly (st\<lparr>paused := True, ended := False\<rparr>)
         in if global_event st1 then emit ''pause'' st1 else st1)
      else if e = ''ended'' then emit ''ended'' (st\<lparr>paused := False, ended := True\<rparr>)
      else st)"

text \<open>
  The player fires the event \<open>e\<close>: every handler registered for it runs. \<open>None\<close> when
  none is registered.
\<close>

definition vimeo_widget_event :: "string \<Rightarrow> bool \<Rightarrow> vimeo_state \<Rightarrow> vimeo_state option" where
  "vimeo_widget_event e gp st =
     (if e \<in> set (subscribed st)
      then Some ((vimeo_handler e gp ^^ count_list (subscribed st) e) st)
      else None)"

definition vimeo_mouse :: "string \<Rightarrow> vimeo_state \<Rightarrow> vimeo_state option" where
  "vimeo_mouse e st =
     (if e \<in> set (listening st)
      then Some ((emit e ^^ count_list (listening st) e) st)
      else None)"

text \<open>\<^verbatim>\<open>vimeo.hide\<close>, \<^verbatim>\<open>vimeo.setSize\<close> and \<^verbatim>\<open>vimeo.show\<close>.\<close>

definition vimeo_hide :: "vimeo_state \<Rightarrow> js_result \<times> vimeo_state" where
  "vimeo_hide st =
     (case vimeo_method ''pause'' st of
        (r, st1) \<Rightarrow>
          (Returned Undefined,
           if vimeoPlayer st1 \<noteq> None then st1\<lparr>display := ''none''\<rparr> else st1))"

definition vimeo_setSize :: "jsval \<Rightarrow> jsval \<Rightarrow> vimeo_state \<Rightarrow> js_result \<times> vimeo_state" where
  "vimeo_setSize w h st = (Returned Undefined, st\<lparr>width := w, height := h\<rparr>)"

definition vimeo_show :: "vimeo_state \<Rightarrow> js_result \<times> vimeo_state" where
  "vimeo_show st =
     (Returned Undefined, if vimeoPlayer st \<noteq> None then st\<lparr>display := []\<rparr> else st)"

text \<open>
  Everything that can happen to an adapter: a call on the object that \<^verbatim>\<open>create\<close>
  returned, the ready signal, and what the widget, the timers and the frame do later.
\<close>

datatype adapter_op =
    GetOp string
  | SetOp string jsval
  | MethodOp string
  | HideOp
  | ShowOp
  | SetSizeOp jsval jsval
  | DestroyOp
  | ReadySignal nat
  | Settle nat outcome
  | Deliver nat real
  | TimerFires nat
  | PlayerEvent string bool
  | WidgetEvent sc_event
  | MouseEvent string

text \<open>
  One step of the Vimeo adapter; an exception ends the call and keeps what was done
  before it. \<open>None\<close> when the adapter has no such operation or it cannot happen now.
\<close>

fun vimeo_step :: "adapter_op \<Rightarrow> vimeo_state \<Rightarrow> vimeo_state option" where
  "vimeo_step (GetOp propName) st = Some (snd (vimeo_get propName st))"
| "vimeo_step (SetOp propName v) st = Some (snd (vimeo_set propName v st))"
| "vimeo_step (MethodOp methodName) st = Some (snd (vimeo_method methodName st))"
| "vimeo_step HideOp st = Some (snd (vimeo_hide st))"
| "vimeo_step ShowOp st = Some (snd (vimeo_show st))"
| "vimeo_step (SetSizeOp w h) st = Some (snd (vimeo_setSize w h st))"
| "vimeo_step (ReadySignal p) st = Some (snd (vimeo_ready p st))"
| "vimeo_step (Settle n out) st = vimeo_settle n out st"
| "vimeo_step (TimerFires n) st = timer_fires n st"
| "vimeo_step (PlayerEvent e gp) st = vimeo_widget_event e gp st"
| "vimeo_step (MouseEvent e) st = vimeo_mouse e st"
| "vimeo_step DestroyOp st = None"
| "vimeo_step (Deliver n x) st = None"
| "vimeo_step (WidgetEvent e) st = None"

section \<open>The SoundCloud adapter\<close>

text \<open>
  The callbacks the adapter hands to \<^verbatim>\<open>getPosition\<close> and \<^verbatim>\<open>getDuration\<close>: in the
  handler of \<^verbatim>\<open>PLAY_PROGRESS\<close>, of \<^verbatim>\<open>READY\<close>, and the two of \<^verbatim>\<open>LOAD_PROGRESS\<close>.
\<close>

datatype sc_cont = Position | DurationReady | LoadProgress | DurationLoad

text \<open>
  The further variables of the SoundCloud \<^verbatim>\<open>create\<close>: \<open>scPlayer\<close> is \<open>None\<close> for
  \<^verbatim>\<open>null\<close>; \<open>scIframe\<close> is \<open>None\<close> for \<^verbatim>\<open>null\<close> and otherwise holds the value of the
  frame's \<^verbatim>\<open>src\<close>; \<open>callbacks\<close> lists the callbacks handed to the widget, each with
  whether it has been called; \<open>bound\<close> lists the events a handler was bound to.
\<close>

record sc_state = adapter_state +
  scPlayerReady :: bool
  scPlayer :: "nat option"
  scIframe :: "jsval option"
  muted :: bool
  callbacks :: "(sc_cont \<times> bool) list"
  bound :: "sc_event list"

definition sc_create :: "string \<Rightarrow> string \<Rightarrow> jsval \<Rightarrow> sc_state" where
  "sc_create meId prefix source =
     \<lparr>adapter_id = meId @ ''_'' @ prefix, mediaElement = meId, apiStack = [], paused = True,
      volume = Num 1, currentTime = Num 0, duration = 0, bufferedTime = 0, ended = False,
      calls = [], timers = [], dispatched = [], display = [], console = [], invoked = [],
      scPlayerReady = False, scPlayer = None, scIframe = Some source, muted = False,
      callbacks = [], bound = []\<rparr>"

definition sc_send :: "widget_call \<Rightarrow> sc_state \<Rightarrow> sc_state" where
  "sc_send c st = st\<lparr>calls := calls st @ [c]\<rparr>"

definition sc_ask :: "widget_call \<Rightarrow> sc_cont \<Rightarrow> sc_state \<Rightarrow> sc_state" where
  "sc_ask c k st = st\<lparr>calls := calls st @ [c], callbacks := callbacks st @ [(k, False)]\<rparr>"

definition sc_get :: "string \<Rightarrow> sc_state \<Rightarrow> js_result \<times> sc_state" where
  "sc_get propName st =
     (if scPlayer st \<noteq> None then
        (if propName = ''currentTime'' then (Returned (currentTime st), st)
         else if propName = ''duration'' then (Returned (Num (duration st)), st)
         else if propName = ''volume'' then (Returned (volume st), st)
         else if propName = ''paused'' then (Returned (Bool (paused st)), st)
         else if propName = ''ended'' then (Returned (Bool (ended st)), st)
         else if propName = ''muted'' then (Returned (Bool (muted st)), st)
         else if propName = ''buffered'' then (Returned TimeRanges, st)
         else if propName = ''src'' then
           (Returned (case scIframe st of None \<Rightarrow> Str [] | Some source \<Rightarrow> source), st)
         else (Returned Null, st))
      else (Returned Null, st))"

definition sc_set :: "string \<Rightarrow> jsval \<Rightarrow> sc_state \<Rightarrow> js_result \<times> sc_state" where
  "sc_set propName v st0 =
     (let st = st0\<lparr>invoked := invoked st0 @ [SetCmd propName v]\<rparr>
      in if scPlayer st \<noteq> None then
           (if propName = ''src'' then
              (case srcOf v of
                 Threw e \<Rightarrow> (Threw e, st)
               | Returned u \<Rightarrow> (Returned Undefined, sc_send (Load u) st))
            else if propName = ''currentTime'' then
              (Returned Undefined, sc_send (SeekTo1000 v) st)
            else if propName = ''muted'' then
              (Returned Undefined,
               setTimeout50 ''volumechange''
                 (if truthy v then sc_send (SetVolume (Num 0)) st
                  else sc_send (SetVolume (Num 1)) st))
            else if propName = ''volume'' then
              (Returned Undefined, setTimeout50 ''volumechange'' (sc_send (SetVolume v) st))
            else
              (Returned Undefined,
               st\<lparr>console := console st @
                   [[''sc '' @ adapter_id st, propName, ''UNSUPPORTED property'']]\<rparr>))
         else (Returned Undefined, st\<lparr>apiStack := apiStack st @ [SetCmd propName v]\<rparr>))"

text \<open>
  \<^verbatim>\<open>play\<close> and \<^verbatim>\<open>pause\<close> return what the widget's function returns, which the
  widget's interface leaves \<^verbatim>\<open>undefined\<close>.
\<close>

definition sc_method :: "string \<Rightarrow> sc_state \<Rightarrow> js_result \<times> sc_state" where
  "sc_method methodName st0 =
     (let st = st0\<lparr>invoked := invoked st0 @ [CallCmd methodName]\<rparr>
      in if scPlayer st \<noteq> None then
           (if methodName = ''play'' then (Returned Undefined, sc_send Play st)
            else if methodName = ''pause'' then (Returned Undefined, sc_send Pause st)
            else if methodName = ''load'' then (Returned Null, st)
            else (Returned Undefined, st))
         else (Returned Undefined, st\<lparr>apiStack := apiStack st @ [CallCmd methodName]\<rparr>))"

fun sc_issue :: "cmd \<Rightarrow> sc_state \<Rightarrow> js_result \<times> sc_state" where
  "sc_issue (SetCmd propName v) st = sc_set propName v st"
| "sc_issue (CallCmd methodName) st = sc_method methodName st"

fun sc_replay :: "nat \<Rightarrow> nat \<Rightarrow> sc_state \<Rightarrow> js_result \<times> sc_state" where
  "sc_replay i 0 st = (Returned Undefined, st)"
| "sc_replay i (Suc n) st =
     (if i < length (apiStack st) then
        (case sc_issue (apiStack st ! i) st of
           (Threw e, st1) \<Rightarrow> (Threw e, st1)
         | (Returned r, st1) \<Rightarrow> sc_replay (Suc i) n st1)
      else (Threw TypeError, st))"

definition sc_events :: "sc_event list" where
  "sc_events = [PLAY_PROGRESS, PAUSE, PLAY, FINISHED, READY, LOAD_PROGRESS]"

text \<open>The ready function \<^verbatim>\<open>win['__ready__' + sc.id]\<close>.\<close>

definition sc_ready :: "nat \<Rightarrow> sc_state \<Rightarrow> js_result \<times> sc_state" where
  "sc_ready p st =
     (let st1 = st\<lparr>scPlayerReady := True, scPlayer := Some p\<rparr>
      in case sc_replay 0 (length (apiStack st1)) st1 of
           (Threw e, st2) \<Rightarrow> (Threw e, st2)
         | (Returned r, st2) \<Rightarrow>
             (Returned Undefined,
              fold emit initial_events
                (st2\<lparr>calls := calls st2 @ map Bind sc_events,
                     bound := bound st2 @ sc_events\<rparr>)))"

text \<open>The handlers given to \<^verbatim>\<open>scPlayer.bind\<close>.\<close>

fun sc_handler :: "sc_event \<Rightarrow> sc_state \<Rightarrow> sc_state" where
  "sc_handler PLAY_PROGRESS st = sc_ask GetPosition Position (st\<lparr>paused := False, ended := False\<rparr>)"
| "sc_handler PAUSE st = emit ''pause'' (st\<lparr>paused := True\<rparr>)"
| "sc_handler PLAY st = emit ''play'' (st\<lparr>paused := False, ended := False\<rparr>)"
| "sc_handler FINISHED st = emit ''ended'' (st\<lparr>paused := False, ended := True\<rparr>)"
| "sc_handler READY st = sc_ask GetDuration DurationReady st"
| "sc_handler LOAD_PROGRESS st =
     sc_ask GetDuration DurationLoad (sc_ask GetDuration LoadProgress st)"

text \<open>What a callback does with the number the widget passes to it.\<close>

fun sc_react :: "sc_cont \<Rightarrow> real \<Rightarrow> sc_state \<Rightarrow> sc_state" where
  "sc_react Position x st = emit ''timeupdate'' (st\<lparr>currentTime := Num (x / 1000)\<rparr>)"
| "sc_react DurationReady x st = emit ''loadedmetadata'' (st\<lparr>duration := x / 1000\<rparr>)"
| "sc_react LoadProgress x st =
     (if duration st > 0 then emit ''progress'' (st\<lparr>bufferedTime := duration st * x\<rparr>) else st)"
| "sc_react DurationLoad x st = emit ''loadedmetadata'' (st\<lparr>duration := x\<rparr>)"

definition sc_deliver :: "nat \<Rightarrow> real \<Rightarrow> sc_state \<Rightarrow> sc_state option" where
  "sc_deliver n x st =
     (if n < length (callbacks st) then
        (case callbacks st ! n of
           (k, called) \<Rightarrow>
             (if called then None
              else Some (sc_react k x (st\<lparr>callbacks := (callbacks st)[n := (k, True)]\<rparr>))))
      else None)"

definition sc_widget_event :: "sc_event \<Rightarrow> sc_state \<Rightarrow> sc_state option" where
  "sc_widget_event e st =
     (if e \<in> set (bound st)
      then Some ((sc_handler e ^^ count_list (bound st) e) st)
      else None)"

text \<open>\<^verbatim>\<open>sc.setSize\<close>, \<^verbatim>\<open>sc.hide\<close>, \<^verbatim>\<open>sc.show\<close> and \<^verbatim>\<open>sc.destroy\<close>.\<close>

definition sc_setSize :: "jsval \<Rightarrow> jsval \<Rightarrow> sc_state \<Rightarrow> js_result \<times> sc_state" where
  "sc_setSize w h st = (Returned Undefined, st)"

definition sc_hide :: "sc_state \<Rightarrow> js_result \<times> sc_state" where
  "sc_hide st =
     (case sc_method ''pause'' st of
        (r, st1) \<Rightarrow>
          (Returned Undefined,
           if scIframe st1 \<noteq> None then st1\<lparr>display := ''none''\<rparr> else st1))"

definition sc_show :: "sc_state \<Rightarrow> js_result \<times> sc_state" where
  "sc_show st =
     (Returned Undefined, if scIframe st \<noteq> None then st\<lparr>display := []\<rparr> else st)"

definition sc_destroy :: "sc_state \<Rightarrow> js_result \<times> sc_state" where
  "sc_destroy st =
     (if scPlayer st \<noteq> None then (Returned Undefined, sc_send Destroy st)
      else (Threw TypeError, st))"

fun sc_step :: "adapter_op \<Rightarrow> sc_state \<Rightarrow> sc_state option" where
  "sc_step (GetOp propName) st = Some (snd (sc_get propName st))"
| "sc_step (SetOp propName v) st = Some (snd (sc_set propName v st))"
| "sc_step (MethodOp methodName) st = Some (snd (sc_method methodName st))"
| "sc_step HideOp st = Some (snd (sc_hide st))"
| "sc_step ShowOp st = Some (snd (sc_show st))"
| "sc_step (SetSizeOp w h) st = Some (snd (sc_setSize w h st))"
| "sc_step DestroyOp st = Some (snd (sc_destroy st))"
| "sc_step (ReadySignal p) st = Some (snd (sc_ready p st))"
| "sc_step (Deliver n x) st = sc_deliver n x st"
| "sc_step (TimerFires n) st = timer_fires n st"
| "sc_step (WidgetEvent e) st = sc_widget_event e st"
| "sc_step (Settle n out) st = None"
| "sc_step (PlayerEvent e gp) st = None"
| "sc_step (MouseEvent e) st = None"

text \<open>
  A run: the operations of a list one after the other, those that cannot happen skipped.
\<close>

fun vimeo_run :: "adapter_op list \<Rightarrow> vimeo_state \<Rightarrow> vimeo_state" where
  "vimeo_run [] st = st"
| "vimeo_run (a # as) st =
     vimeo_run as (case vimeo_step a st of None \<Rightarrow> st | Some st1 \<Rightarrow> st1)"

fun sc_run :: "adapter_op list \<Rightarrow> sc_state \<Rightarrow> sc_state" where
  "sc_run [] st = st"
| "sc_run (a # as) st =
     sc_run as (case sc_step a st of None \<Rightarrow> st | Some st1 \<Rightarrow> st1)"

section \<open>Results\<close>

text \<open>
  C4: \<^verbatim>\<open>getVimeoId\<close> returns 59777392 for \<^verbatim>\<open>"https://vimeo.com/59777392?x=1"\<close>
  and for \<^verbatim>\<open>"https://player.vimeo.com/video/59777392"\<close>, and \<^verbatim>\<open>null\<close> for
  \<^verbatim>\<open>null\<close> and \<^verbatim>\<open>undefined\<close>.
\<close>

theorem getVimeoId_examples:
  "getVimeoId (Str ''https://vimeo.com/59777392?x=1'') = Returned (Num 59777392)
   \<and> getVimeoId (Str ''https://player.vimeo.com/video/59777392'') = Returned (Num 59777392)
   \<and> getVimeoId Null = Returned Null
   \<and> getVimeoId Undefined = Returned Null"
  by (simp add: getVimeoId_def parseInt_def substring_def lastIndexOf_def
      isWhiteSpace_def digitValue_def)

text \<open>
  C8: the Vimeo renderer's \<^verbatim>\<open>canPlayType\<close> is true exactly for
  \<^verbatim>\<open>"video/vimeo"\<close> and \<^verbatim>\<open>"video/x-vimeo"\<close>, the SoundCloud renderer's exactly for
  \<^verbatim>\<open>"video/soundcloud"\<close> and \<^verbatim>\<open>"video/x-soundcloud"\<close>; every other input, string
  or not, gives false.
\<close>

theorem canPlayType_exact:
  "(vimeo_canPlayType t \<longleftrightarrow> t = Str ''video/vimeo'' \<or> t = Str ''video/x-vimeo'')
   \<and> (soundcloud_canPlayType t \<longleftrightarrow>
        t = Str ''video/soundcloud'' \<or> t = Str ''video/x-soundcloud'')"
  by (auto simp add: vimeo_canPlayType_def soundcloud_canPlayType_def indexOf_def strictEq_def)

end
